theory Spec2Isabelle
  imports Complex_Main
begin

section \<open>Numbers, points and rectangles\<close>

text \<open>
  The handlers of \<^verbatim>\<open>src/note-mouse-handler.js\<close> compute with JavaScript numbers.
  They are modelled as real numbers: the arithmetic of the handlers is a handful of
  additions, subtractions, one division by 3 and comparisons, and no property below is
  about rounding of doubles.  Object literals \<^verbatim>\<open>{x, y}\<close> and
  \<^verbatim>\<open>{x, y, width, height}\<close> are records.
\<close>

record point =
  pt_x :: real
  pt_y :: real

record rect =
  rect_x :: real
  rect_y :: real
  rect_width :: real
  rect_height :: real

text \<open>The argument of \<^verbatim>\<open>listener.onCreateNote\<close>: \<^verbatim>\<open>{x, y, width}\<close>.\<close>

record new_note =
  nn_x :: real
  nn_y :: real
  nn_width :: real

section \<open>The drag classifier\<close>

text \<open>\<^verbatim>\<open>const DRAG_POSITION = { LEFT_EDGE: 0, CENTER: 1, RIGHT_EDGE: 2 }\<close>\<close>

datatype DRAG_POSITION = LEFT_EDGE | CENTER | RIGHT_EDGE

text \<open>
  \<^verbatim>\<open>
  getDragPositionType(localX, noteWidth) {
    const edgeSize = Math.min(noteWidth / 3, 8)
    if (localX <= edgeSize) { return DRAG_POSITION.LEFT_EDGE }
    if (noteWidth - localX <= edgeSize) { return DRAG_POSITION.RIGHT_EDGE }
    return DRAG_POSITION.CENTER
  }
  \<close>
\<close>

definition getDragPositionType :: "real \<Rightarrow> real \<Rightarrow> DRAG_POSITION" where
  "getDragPositionType lx noteWidth =
     (let edgeSize = min (noteWidth / 3) 8 in
      if lx \<le> edgeSize then LEFT_EDGE
      else if noteWidth - lx \<le> edgeSize then RIGHT_EDGE
      else CENTER)"

section \<open>Collaborators of the handlers\<close>

text \<open>
  A note view: the display object of one note.  \<^verbatim>\<open>nv_width\<close> and
  \<^verbatim>\<open>nv_height\<close> are what \<^verbatim>\<open>getBounds()\<close> reports.
\<close>

record note_view =
  noteId :: nat
  nv_x :: real
  nv_y :: real
  nv_width :: real
  nv_height :: real

text \<open>
  What a pointer event can hit, and what \<^verbatim>\<open>getObjectUnderPoint\<close> can return:
  the background container, a note view (\<^verbatim>\<open>obj instanceof NoteView\<close>), or
  some other display object.
\<close>

datatype display_object = Container | NoteView note_view | OtherObject

text \<open>
  A pointer event.  The handlers that the host registers on note views
  (\<^verbatim>\<open>onMouseDownNote\<close>, \<^verbatim>\<open>onPressMoveNote\<close>) receive events whose target is a
  note view; the others receive events whose target is any display object.
\<close>

record 't mouse_event =
  stageX :: real
  stageY :: real
  localX :: real
  localY :: real
  target :: 't

text \<open>An element of \<^verbatim>\<open>listener.notes\<close>.\<close>

record note_data =
  note_id :: nat
  note_x :: real
  note_y :: real
  note_width :: real
  note_height :: real

text \<open>
  The global \<^verbatim>\<open>quantizer\<close> is used by the handlers and defined elsewhere; the
  handlers are modelled over any quantizer.
\<close>

record quantizer =
  unitX :: real
  unitY :: real
  floorX :: "real \<Rightarrow> real"
  floorY :: "real \<Rightarrow> real"
  roundX :: "real \<Rightarrow> real"
  roundY :: "real \<Rightarrow> real"

text \<open>
  Everything the handlers read and never write:
  \<^item> the global \<^verbatim>\<open>quantizer\<close>;
  \<^item> the container's \<^verbatim>\<open>globalToLocal\<close> and \<^verbatim>\<open>getObjectUnderPoint\<close>, and a note
    view's own \<^verbatim>\<open>globalToLocal\<close>;
  \<^item> the methods \<^verbatim>\<open>containsPoint\<close> and \<^verbatim>\<open>fromPoints\<close> of the class
    \<^verbatim>\<open>Rect\<close>, which is defined elsewhere;
  \<^item> \<^verbatim>\<open>listener.notes\<close>;
  \<^item> the identifier \<^verbatim>\<open>selection\<close> that \<^verbatim>\<open>SelectionMouseHandler.onMouseUp\<close>
    reads.  Nothing in the handler file binds it: it is \<open>None\<close> when no global of that
    name exists (reading it raises a ReferenceError), and \<open>Some r\<close> when a global
    holds the rectangle \<open>r\<close>.
\<close>

record env =
  quantizer :: quantizer
  globalToLocal :: "real \<Rightarrow> real \<Rightarrow> point"
  getObjectUnderPoint :: "real \<Rightarrow> real \<Rightarrow> display_object option"
  noteGlobalToLocal :: "note_view \<Rightarrow> real \<Rightarrow> real \<Rightarrow> point"
  containsPoint :: "rect \<Rightarrow> point \<Rightarrow> bool"
  fromPoints :: "point \<Rightarrow> point \<Rightarrow> rect"
  listener_notes :: "note_data list"
  selection :: "rect option"

text \<open>The calls a handler makes on its listener, in the order it makes them.\<close>

datatype intent =
    OnCreateNote new_note
  | OnResizeNote nat rect
  | OnMoveNotes "note_data list" point
  | OnSelectNotes "note_data list"
  | OnClickNotes "note_data list" "display_object mouse_event"

text \<open>
  A handler either returns, with the handler's new state and the listener calls it made,
  or throws; a throw leaves the assignments made before it in place, so the error carries
  the state reached.  No handler calls the listener before a point where it can throw.
\<close>

datatype js_error = TypeError | ReferenceError

type_synonym 's outcome = "(js_error \<times> 's) + ('s \<times> intent list)"

section \<open>PencilMouseHandler\<close>

text \<open>\<^verbatim>\<open>this.dragPosition = { x, y, type }\<close>\<close>

record drag_position =
  dp_x :: real
  dp_y :: real
  dp_type :: DRAG_POSITION

text \<open>
  The mutable state a PencilMouseHandler works on: its field \<^verbatim>\<open>dragPosition\<close>
  (\<open>None\<close> while it is undefined, as the constructor leaves it) and the CSS cursor of the
  canvas's parent node, which \<^verbatim>\<open>setCursor\<close> writes.  The method
  \<^verbatim>\<open>resetCursor\<close>, which writes the container's own style and is called by no
  handler, is left out.
\<close>

record pencil_state =
  dragPosition :: "drag_position option"
  cursor :: string

definition PencilMouseHandler :: "string \<Rightarrow> pencil_state" where
  "PencilMouseHandler c = \<lparr>dragPosition = None, cursor = c\<rparr>"

definition onMouseDownNote :: "pencil_state \<Rightarrow> note_view mouse_event \<Rightarrow> pencil_state outcome" where
  "onMouseDownNote s e =
     Inr (s\<lparr>dragPosition := Some
            \<lparr>dp_x = localX e, dp_y = localY e,
             dp_type = getDragPositionType (localX e) (nv_width (target e))\<rparr>\<rparr>, [])"

definition pencil_onMouseDown :: "env \<Rightarrow> pencil_state \<Rightarrow> display_object mouse_event \<Rightarrow> pencil_state outcome" where
  "pencil_onMouseDown E s e =
     (if target e = Container then
        (let p = globalToLocal E (stageX e) (stageY e) in
         Inr (s, [OnCreateNote
                    \<lparr>nn_x = floorX (quantizer E) (pt_x p),
                     nn_y = floorY (quantizer E) (pt_y p),
                     nn_width = unitX (quantizer E)\<rparr>]))
      else Inr (s, []))"

text \<open>
  The \<^verbatim>\<open>switch\<close> of \<^verbatim>\<open>onPressMoveNote\<close>: the bounds to emit, from the
  stored drag position \<open>dp\<close>, the note's bounds, the container-local pointer \<open>p\<close> and
  \<open>qx = quantizer.roundX(p.x)\<close>.
\<close>

definition pressMoveBounds :: "quantizer \<Rightarrow> drag_position \<Rightarrow> rect \<Rightarrow> point \<Rightarrow> rect" where
  "pressMoveBounds q dp bounds p =
     (let qx = roundX q (pt_x p) in
      case dp_type dp of
        LEFT_EDGE \<Rightarrow>
          bounds\<lparr>rect_width := rect_width bounds + rect_x bounds - qx, rect_x := qx\<rparr>
      | RIGHT_EDGE \<Rightarrow>
          bounds\<lparr>rect_width := qx - rect_x bounds\<rparr>
      | CENTER \<Rightarrow>
          bounds\<lparr>rect_x := roundX q (pt_x p - dp_x dp),
                 rect_y := roundY q (pt_y p - dp_y dp)\<rparr>)"

text \<open>
  \<^verbatim>\<open>onPressMoveNote\<close>.  Reading \<^verbatim>\<open>this.dragPosition.type\<close> while
  \<^verbatim>\<open>dragPosition\<close> is undefined throws a TypeError, before the listener is called.
\<close>

definition onPressMoveNote :: "env \<Rightarrow> pencil_state \<Rightarrow> note_view mouse_event \<Rightarrow> pencil_state outcome" where
  "onPressMoveNote E s e =
     (let bounds = \<lparr>rect_x = nv_x (target e), rect_y = nv_y (target e),
                    rect_width = nv_width (target e), rect_height = nv_height (target e)\<rparr>;
          p = globalToLocal E (stageX e) (stageY e)
      in case dragPosition s of
           None \<Rightarrow> Inl (TypeError, s)
         | Some dp \<Rightarrow>
             Inr (s, [OnResizeNote (noteId (target e)) (pressMoveBounds (quantizer E) dp bounds p)]))"

definition setCursor :: "string \<Rightarrow> pencil_state \<Rightarrow> pencil_state" where
  "setCursor c s = (if cursor s \<noteq> c then s\<lparr>cursor := c\<rparr> else s)"

text \<open>\<^verbatim>\<open>PencilMouseHandler.onMouseMove\<close>: the hover feedback.\<close>

definition pencil_onMouseMove :: "env \<Rightarrow> pencil_state \<Rightarrow> 't mouse_event \<Rightarrow> pencil_state outcome" where
  "pencil_onMouseMove E s e =
     (let cpos = globalToLocal E (stageX e) (stageY e) in
      case getObjectUnderPoint E (pt_x cpos) (pt_y cpos) of
        Some (NoteView obj) \<Rightarrow>
          (let pos = noteGlobalToLocal E obj (stageX e) (stageY e) in
           case getDragPositionType (pt_x pos) (nv_width obj) of
             LEFT_EDGE \<Rightarrow> Inr (setCursor ''w-resize'' s, [])
           | RIGHT_EDGE \<Rightarrow> Inr (setCursor ''w-resize'' s, [])
           | CENTER \<Rightarrow> Inr (setCursor ''move'' s, []))
      | _ \<Rightarrow> Inr (setCursor ''default'' s, []))"

text \<open>
  One drag on a note, as the host dispatches it: the pointer-moves of the drag, in order,
  each handled by \<^verbatim>\<open>onPressMoveNote\<close>.  A throw ends the run.
\<close>

fun pressMoves :: "env \<Rightarrow> pencil_state \<Rightarrow> note_view mouse_event list \<Rightarrow> pencil_state outcome" where
  "pressMoves E s [] = Inr (s, [])"
| "pressMoves E s (e # es) =
     (case onPressMoveNote E s e of
        Inl err \<Rightarrow> Inl err
      | Inr (s1, out1) \<Rightarrow>
          (case pressMoves E s1 es of
             Inl err \<Rightarrow> Inl err
           | Inr (s2, out2) \<Rightarrow> Inr (s2, out1 @ out2)))"

section \<open>SelectionMouseHandler\<close>

text \<open>
  The selection view, as far as the handler reads and writes it: its position, the size
  that \<^verbatim>\<open>setSize\<close> sets and \<^verbatim>\<open>getBounds()\<close> reports, and the flags
  \<^verbatim>\<open>fixed\<close> and \<^verbatim>\<open>visible\<close>.
\<close>

record selection_view =
  sv_x :: real
  sv_y :: real
  sv_width :: real
  sv_height :: real
  fixed :: bool
  visible :: bool

text \<open>
  The fields of a SelectionMouseHandler.  \<^verbatim>\<open>start\<close> and \<^verbatim>\<open>dragOffset\<close> are
  undefined (\<open>None\<close>) until the first pointer-down.  \<^verbatim>\<open>isMouseMoved\<close> is read by
  \<^verbatim>\<open>onMouseUp\<close>; no method of the class assigns it, and it is undefined (falsy,
  \<open>False\<close>) in a handler fresh from the constructor.
\<close>

record selection_state =
  selectionView :: selection_view
  selectedNotes :: "note_data list"
  isMouseDown :: bool
  isMouseMoved :: bool
  start :: "point option"
  dragOffset :: "point option"

definition SelectionMouseHandler :: "selection_view \<Rightarrow> selection_state" where
  "SelectionMouseHandler sv =
     \<lparr>selectionView = sv, selectedNotes = [], isMouseDown = False, isMouseMoved = False,
      start = None, dragOffset = None\<rparr>"

text \<open>The getter and the setter of \<^verbatim>\<open>selectionRect\<close>.\<close>

definition selectionRect :: "selection_state \<Rightarrow> rect" where
  "selectionRect s =
     \<lparr>rect_x = sv_x (selectionView s), rect_y = sv_y (selectionView s),
      rect_width = sv_width (selectionView s), rect_height = sv_height (selectionView s)\<rparr>"

definition set_selectionRect :: "rect \<Rightarrow> selection_state \<Rightarrow> selection_state" where
  "set_selectionRect r s =
     s\<lparr>selectionView := (selectionView s)
          \<lparr>sv_x := rect_x r, sv_y := rect_y r,
           sv_width := rect_width r, sv_height := rect_height r\<rparr>\<rparr>"

definition selection_onMouseDown :: "env \<Rightarrow> selection_state \<Rightarrow> display_object mouse_event \<Rightarrow> selection_state outcome" where
  "selection_onMouseDown E s e =
     (let p = globalToLocal E (stageX e) (stageY e);
          s1 = s\<lparr>isMouseDown := True, start := Some p\<rparr>;
          clicked = containsPoint E (selectionRect s1) p;
          (s2, out) =
            (if \<not> clicked then
               (set_selectionRect
                  \<lparr>rect_x = pt_x p, rect_y = pt_y p, rect_width = 0, rect_height = 0\<rparr>
                  (s1\<lparr>selectionView := (selectionView s1)\<lparr>fixed := False, visible := False\<rparr>\<rparr>),
                [OnSelectNotes []])
             else (s1, []))
      in Inr (s2\<lparr>dragOffset := Some
                   \<lparr>pt_x = pt_x p - rect_x (selectionRect s2),
                    pt_y = pt_y p - rect_y (selectionRect s2)\<rparr>\<rparr>, out))"

text \<open>
  JavaScript's \<^verbatim>\<open>a || b\<close> on numbers: \<open>b\<close> when \<open>a\<close> is zero.
\<close>

definition or_else :: "real \<Rightarrow> real \<Rightarrow> real" where
  "or_else a b = (if a = 0 then b else a)"

text \<open>
  \<^verbatim>\<open>onMouseMove\<close>.  Reading \<^verbatim>\<open>this.dragOffset.x\<close> (or the start point inside
  \<^verbatim>\<open>Rect.fromPoints\<close>) while it is undefined throws a TypeError, after
  \<^verbatim>\<open>visible\<close> has been set.
\<close>

definition selection_onMouseMove :: "env \<Rightarrow> selection_state \<Rightarrow> 't mouse_event \<Rightarrow> selection_state outcome" where
  "selection_onMouseMove E s e =
     (if \<not> isMouseDown s then Inr (s, [])
      else
        (let s1 = s\<lparr>selectionView := (selectionView s)\<lparr>visible := True\<rparr>\<rparr>;
             loc = globalToLocal E (stageX e) (stageY e);
             bounds = selectionRect s1;
             q = quantizer E
         in if fixed (selectionView s1) then
              (case dragOffset s1 of
                 None \<Rightarrow> Inl (TypeError, s1)
               | Some off \<Rightarrow>
                   (let qx = roundX q (pt_x loc - pt_x off);
                        qy = roundY q (pt_y loc - pt_y off)
                    in Inr (set_selectionRect (bounds\<lparr>rect_x := qx, rect_y := qy\<rparr>) s1,
                            [OnMoveNotes (selectedNotes s1)
                               \<lparr>pt_x = qx - rect_x bounds, pt_y = qy - rect_y bounds\<rparr>])))
            else
              (case start s1 of
                 None \<Rightarrow> Inl (TypeError, s1)
               | Some st \<Rightarrow>
                   (let r = fromPoints E st loc;
                        nx = roundX q (rect_x r);
                        ny = roundY q (rect_y r);
                        nw = or_else (roundX q (rect_x r + rect_width r) - nx) (unitX q);
                        nh = or_else (roundY q (rect_y r + rect_height r) - ny) (unitY q)
                    in Inr (set_selectionRect
                              \<lparr>rect_x = nx, rect_y = ny, rect_width = nw, rect_height = nh\<rparr> s1,
                            [])))))"

text \<open>
  \<^verbatim>\<open>this.listener.notes.filter(n => new Rect(selection).containsPoint(n))\<close>.
  The callback reads the identifier \<^verbatim>\<open>selection\<close>, not the handler's
  \<^verbatim>\<open>selectionRect\<close>; it runs once per note, so with no notes nothing is read, and
  with a note and no such global the first call throws a ReferenceError.  The point
  tested is the note's \<^verbatim>\<open>{x, y}\<close>.
\<close>

definition filterNotes :: "env \<Rightarrow> js_error + note_data list" where
  "filterNotes E =
     (case listener_notes E of
        [] \<Rightarrow> Inr []
      | _ # _ \<Rightarrow>
          (case selection E of
             None \<Rightarrow> Inl ReferenceError
           | Some sel \<Rightarrow>
               Inr (filter (\<lambda>n. containsPoint E sel \<lparr>pt_x = note_x n, pt_y = note_y n\<rparr>)
                      (listener_notes E))))"

definition selection_onMouseUp :: "env \<Rightarrow> selection_state \<Rightarrow> display_object mouse_event \<Rightarrow> selection_state outcome" where
  "selection_onMouseUp E s e =
     (if \<not> fixed (selectionView s) then
        (let s1 = s\<lparr>selectionView := (selectionView s)\<lparr>fixed := True\<rparr>\<rparr> in
         case filterNotes E of
           Inl err \<Rightarrow> Inl (err, s1)
         | Inr ns \<Rightarrow> Inr (s1\<lparr>selectedNotes := ns, isMouseDown := False\<rparr>, [OnSelectNotes ns]))
      else if \<not> isMouseMoved s then
        Inr (s\<lparr>isMouseDown := False\<rparr>, [OnClickNotes (selectedNotes s) e])
      else Inr (s\<lparr>isMouseDown := False\<rparr>, []))"

text \<open>
  A stream of pointer events in selection mode, as the host dispatches it.  A throw ends
  the run.
\<close>

datatype pointer_event =
    Down "display_object mouse_event"
  | Move "display_object mouse_event"
  | Up "display_object mouse_event"

fun selection_dispatch :: "env \<Rightarrow> selection_state \<Rightarrow> pointer_event \<Rightarrow> selection_state outcome" where
  "selection_dispatch E s (Down e) = selection_onMouseDown E s e"
| "selection_dispatch E s (Move e) = selection_onMouseMove E s e"
| "selection_dispatch E s (Up e) = selection_onMouseUp E s e"

fun selection_run :: "env \<Rightarrow> selection_state \<Rightarrow> pointer_event list \<Rightarrow> selection_state outcome" where
  "selection_run E s [] = Inr (s, [])"
| "selection_run E s (ev # evs) =
     (case selection_dispatch E s ev of
        Inl err \<Rightarrow> Inl err
      | Inr (s1, out1) \<Rightarrow>
          (case selection_run E s1 evs of
             Inl err \<Rightarrow> Inl err
           | Inr (s2, out2) \<Rightarrow> Inr (s2, out1 @ out2)))"

section \<open>The collaborators, as the specification describes them\<close>

text \<open>
  Modelled from the spec: the class of the global \<^verbatim>\<open>quantizer\<close> is not among the
  sources.  The specification (4.1) has \<^verbatim>\<open>floorX\<close>/\<^verbatim>\<open>floorY\<close> map a coordinate
  down to the start of its grid cell and \<^verbatim>\<open>roundX\<close>/\<^verbatim>\<open>roundY\<close> map it to the
  nearest grid line, for grid units \<^verbatim>\<open>unitX\<close>, \<^verbatim>\<open>unitY\<close> greater than zero.
\<close>

definition gridQuantizer :: "real \<Rightarrow> real \<Rightarrow> quantizer" where
  "gridQuantizer ux uy =
     \<lparr>unitX = ux, unitY = uy,
      floorX = (\<lambda>v. of_int \<lfloor>v / ux\<rfloor> * ux),
      floorY = (\<lambda>v. of_int \<lfloor>v / uy\<rfloor> * uy),
      roundX = (\<lambda>v. of_int (round (v / ux)) * ux),
      roundY = (\<lambda>v. of_int (round (v / uy)) * uy)\<rparr>"

text \<open>
  Modelled from the spec: the class \<^verbatim>\<open>Rect\<close> is not among the sources.  The
  specification (4.4) has \<^verbatim>\<open>containsPoint\<close> test whether a point lies within the
  rectangle, and \<^verbatim>\<open>fromPoints\<close> build the rectangle spanning two points,
  normalised for the direction of the drag.
\<close>

definition Rect_containsPoint :: "rect \<Rightarrow> point \<Rightarrow> bool" where
  "Rect_containsPoint r p =
     (rect_x r \<le> pt_x p \<and> pt_x p \<le> rect_x r + rect_width r \<and>
      rect_y r \<le> pt_y p \<and> pt_y p \<le> rect_y r + rect_height r)"

definition Rect_fromPoints :: "point \<Rightarrow> point \<Rightarrow> rect" where
  "Rect_fromPoints a b =
     \<lparr>rect_x = min (pt_x a) (pt_x b), rect_y = min (pt_y a) (pt_y b),
      rect_width = \<bar>pt_x a - pt_x b\<bar>, rect_height = \<bar>pt_y a - pt_y b\<bar>\<rparr>"

text \<open>
  An environment for concrete runs: the grid of the specification's example
  (\<^verbatim>\<open>unitX = 10\<close>, \<^verbatim>\<open>unitY = 12\<close>), a container whose local coordinates are the
  stage's, no object under any point, and the given notes and global
  \<^verbatim>\<open>selection\<close>.
\<close>

definition exampleEnv :: "note_data list \<Rightarrow> rect option \<Rightarrow> env" where
  "exampleEnv ns sel =
     \<lparr>quantizer = gridQuantizer 10 12,
      globalToLocal = (\<lambda>sx sy. \<lparr>pt_x = sx, pt_y = sy\<rparr>),
      getObjectUnderPoint = (\<lambda>_ _. None),
      noteGlobalToLocal = (\<lambda>nv sx sy. \<lparr>pt_x = sx - nv_x nv, pt_y = sy - nv_y nv\<rparr>),
      containsPoint = Rect_containsPoint,
      fromPoints = Rect_fromPoints,
      listener_notes = ns,
      selection = sel\<rparr>"

definition pointerAt :: "real \<Rightarrow> real \<Rightarrow> 't \<Rightarrow> 't mouse_event" where
  "pointerAt sx sy t = \<lparr>stageX = sx, stageY = sy, localX = sx, localY = sy, target = t\<rparr>"

text \<open>The listener calls of an outcome; a handler that throws has made none.\<close>

definition emitted :: "'s outcome \<Rightarrow> intent list" where
  "emitted r = (case r of Inl _ \<Rightarrow> [] | Inr (_, out) \<Rightarrow> out)"

text \<open>
  One whole pencil-mode drag on a note: the pointer-down on the note, handled by
  \<^verbatim>\<open>onMouseDownNote\<close>, and then the pointer-moves of the drag.
\<close>

definition noteDrag :: "env \<Rightarrow> pencil_state \<Rightarrow> note_view mouse_event \<Rightarrow> note_view mouse_event list \<Rightarrow> pencil_state outcome" where
  "noteDrag E s e0 es =
     (case onMouseDownNote s e0 of
        Inl err \<Rightarrow> Inl err
      | Inr (s1, out1) \<Rightarrow>
          (case pressMoves E s1 es of
             Inl err \<Rightarrow> Inl err
           | Inr (s2, out2) \<Rightarrow> Inr (s2, out1 @ out2)))"

text \<open>
  The note of the specification's example, \<^verbatim>\<open>{x: 100, y: 0, width: 40}\<close>, a pointer
  event on a note view at a stage position, and a pencil handler in the middle of a drag.
\<close>

definition exampleNoteView :: note_view where
  "exampleNoteView = \<lparr>noteId = 7, nv_x = 100, nv_y = 0, nv_width = 40, nv_height = 12\<rparr>"

definition notePointer :: "real \<Rightarrow> real \<Rightarrow> note_view \<Rightarrow> note_view mouse_event" where
  "notePointer sx sy nv =
     \<lparr>stageX = sx, stageY = sy, localX = sx - nv_x nv, localY = sy - nv_y nv, target = nv\<rparr>"

definition dragging :: "real \<Rightarrow> real \<Rightarrow> DRAG_POSITION \<Rightarrow> pencil_state" where
  "dragging lx ly ty =
     \<lparr>dragPosition = Some \<lparr>dp_x = lx, dp_y = ly, dp_type = ty\<rparr>, cursor = ''default''\<rparr>"

text \<open>
  A note at \<open>(50, 24)\<close>, a selection view as it is created (empty, invisible, not
  fixed), a handler whose marquee from \<open>(20, 12)\<close> to \<open>(100, 60)\<close> has been
  committed with that note selected, and the same handler after a pointer-down at
  \<open>(50, 24)\<close>, inside the rectangle.
\<close>

definition exampleNote :: note_data where
  "exampleNote = \<lparr>note_id = 1, note_x = 50, note_y = 24, note_width = 10, note_height = 12\<rparr>"

definition emptySelectionView :: selection_view where
  "emptySelectionView =
     \<lparr>sv_x = 0, sv_y = 0, sv_width = 0, sv_height = 0, fixed = False, visible = False\<rparr>"

definition fixedSelection :: selection_state where
  "fixedSelection =
     \<lparr>selectionView =
        \<lparr>sv_x = 20, sv_y = 12, sv_width = 80, sv_height = 48, fixed = True, visible = True\<rparr>,
      selectedNotes = [exampleNote], isMouseDown = False, isMouseMoved = False,
      start = Some \<lparr>pt_x = 20, pt_y = 12\<rparr>, dragOffset = Some \<lparr>pt_x = 0, pt_y = 0\<rparr>\<rparr>"

definition heldSelection :: selection_state where
  "heldSelection =
     fixedSelection\<lparr>isMouseDown := True, start := Some \<lparr>pt_x = 50, pt_y = 24\<rparr>,
                    dragOffset := Some \<lparr>pt_x = 30, pt_y = 12\<rparr>\<rparr>"

text \<open>
  What the handler's fields look like in the middle of a gesture: while
  \<^verbatim>\<open>isMouseDown\<close> is set, the start point and the drag offset have been recorded.
\<close>

definition gestureState :: "selection_state \<Rightarrow> bool" where
  "gestureState s = (if isMouseDown s then start s \<noteq> None \<and> dragOffset s \<noteq> None else True)"

section \<open>The drag classifier: properties\<close>

lemma getDragPositionType_rule:
  "getDragPositionType off w =
     (if off \<le> min (w / 3) 8 then LEFT_EDGE
      else if w - off \<le> min (w / 3) 8 then RIGHT_EDGE
      else CENTER)"
  by (simp add: getDragPositionType_def Let_def)

text \<open>
  C2, as amended.  For every pointer offset \<open>off\<close> and note width \<open>w\<close> the classifier
  returns LeftEdge when \<open>off \<le> min (w / 3) 8\<close>, RightEdge when that fails and
  \<open>w - off \<le> min (w / 3) 8\<close>, and Center otherwise.  At offset 0 it returns LeftEdge
  for every width \<open>w \<ge> 0\<close>; at offset \<open>w\<close> it returns RightEdge for every width
  \<open>w > 0\<close>; for \<open>w \<ge> 16\<close> every offset strictly between 8 and \<open>w - 8\<close> is Center;
  and whenever both edge conditions hold the result is LeftEdge.
\<close>

theorem getDragPositionType_classification:
  "getDragPositionType off w =
     (if off \<le> min (w / 3) 8 then LEFT_EDGE
      else if w - off \<le> min (w / 3) 8 then RIGHT_EDGE
      else CENTER)
   \<and> (0 \<le> w1 \<longrightarrow> getDragPositionType 0 w1 = LEFT_EDGE)
   \<and> (0 < w2 \<longrightarrow> getDragPositionType w2 w2 = RIGHT_EDGE)
   \<and> (16 \<le> w3 \<and> 8 < off3 \<and> off3 < w3 - 8 \<longrightarrow> getDragPositionType off3 w3 = CENTER)
   \<and> (off4 \<le> min (w4 / 3) 8 \<and> w4 - off4 \<le> min (w4 / 3) 8 \<longrightarrow>
        getDragPositionType off4 w4 = LEFT_EDGE)"
proof (intro conjI impI)
  show "getDragPositionType off w =
     (if off \<le> min (w / 3) 8 then LEFT_EDGE
      else if w - off \<le> min (w / 3) 8 then RIGHT_EDGE
      else CENTER)"
    by (rule getDragPositionType_rule)
next
  assume "0 \<le> w1"
  then show "getDragPositionType 0 w1 = LEFT_EDGE"
    by (simp add: getDragPositionType_rule)
next
  assume pos: "0 < w2"
  then have "\<not> w2 \<le> min (w2 / 3) 8" by (simp add: min_def)
  moreover from pos have "w2 - w2 \<le> min (w2 / 3) 8" by simp
  ultimately show "getDragPositionType w2 w2 = RIGHT_EDGE"
    by (simp only: getDragPositionType_rule if_True if_False)
next
  assume h: "16 \<le> w3 \<and> 8 < off3 \<and> off3 < w3 - 8"
  then have "\<not> off3 \<le> min (w3 / 3) 8" and "\<not> w3 - off3 \<le> min (w3 / 3) 8"
    by (auto simp: min_def)
  then show "getDragPositionType off3 w3 = CENTER"
    by (simp only: getDragPositionType_rule if_False)
next
  assume "off4 \<le> min (w4 / 3) 8 \<and> w4 - off4 \<le> min (w4 / 3) 8"
  then show "getDragPositionType off4 w4 = LEFT_EDGE"
    by (simp add: getDragPositionType_rule)
qed

text \<open>
  The classification at a note of width 40 (offsets 20, 0 and 40), and the tie at width 0,
  the only non-negative width at which both edge conditions hold.
\<close>

theorem getDragPositionType_classification_witness:
  "getDragPositionType 20 40 = CENTER
   \<and> getDragPositionType 0 40 = LEFT_EDGE
   \<and> getDragPositionType 40 40 = RIGHT_EDGE
   \<and> getDragPositionType 0 0 = LEFT_EDGE"
  using getDragPositionType_classification
          [where off = 20 and w = 40 and ?w1.0 = 40 and ?w2.0 = 40 and ?w3.0 = 40
             and ?off3.0 = 20 and ?w4.0 = 0 and ?off4.0 = 0]
  by simp

text \<open>
  C2 as stated fails at widths that are not positive: at width 0 the offset \<open>w = 0\<close> is
  classified LeftEdge, not RightEdge (the left test is made first), and at width \<open>-3\<close>
  the offset 0 is classified RightEdge, not LeftEdge.
\<close>

theorem getDragPositionType_nonpositive_width:
  "getDragPositionType 0 0 = LEFT_EDGE
   \<and> \<not> (\<forall>w. getDragPositionType w w = RIGHT_EDGE)
   \<and> getDragPositionType 0 (- 3) = RIGHT_EDGE
   \<and> \<not> (\<forall>w. getDragPositionType 0 w = LEFT_EDGE)"
proof -
  have a: "getDragPositionType 0 0 = LEFT_EDGE"
    by (simp add: getDragPositionType_def)
  have b: "getDragPositionType 0 (- 3) = RIGHT_EDGE"
    by (simp add: getDragPositionType_def)
  from a have "\<not> (\<forall>w. getDragPositionType w w = RIGHT_EDGE)"
    by (metis DRAG_POSITION.distinct(3))
  moreover from b have "\<not> (\<forall>w. getDragPositionType 0 w = LEFT_EDGE)"
    by (metis DRAG_POSITION.distinct(3))
  ultimately show ?thesis using a b by simp
qed

section \<open>PencilMouseHandler: properties\<close>

lemma example_quantizer_values:
  "roundX (quantizer (exampleEnv ns sel)) 130 = 130"
  "floorX (quantizer (exampleEnv ns sel)) 23 = 20"
  "floorY (quantizer (exampleEnv ns sel)) 5 = 0"
  "unitX (quantizer (exampleEnv ns sel)) = 10"
  "globalToLocal (exampleEnv ns sel) sx sy = \<lparr>pt_x = sx, pt_y = sy\<rparr>"
  by (simp_all add: exampleEnv_def gridQuantizer_def round_def)

lemma example_note_pointer:
  "noteId (target (notePointer sx sy exampleNoteView)) = 7"
  "nv_x (target (notePointer sx sy exampleNoteView)) = 100"
  "nv_y (target (notePointer sx sy exampleNoteView)) = 0"
  "nv_width (target (notePointer sx sy exampleNoteView)) = 40"
  "nv_height (target (notePointer sx sy exampleNoteView)) = 12"
  "stageX (notePointer sx sy exampleNoteView) = sx"
  "stageY (notePointer sx sy exampleNoteView) = sy"
  "localX (notePointer sx sy exampleNoteView) = sx - 100"
  "localY (notePointer sx sy exampleNoteView) = sy"
  by (simp_all add: notePointer_def exampleNoteView_def)

text \<open>
  While a drag position is stored, a pointer-move on a note leaves the handler's state as
  it is and makes one \<^verbatim>\<open>onResizeNote\<close> call, with bounds computed from the stored
  drag position.
\<close>

lemma onPressMoveNote_dragging:
  "dragPosition s = Some dp \<Longrightarrow>
   onPressMoveNote E s e =
     Inr (s, [OnResizeNote (noteId (target e))
                (pressMoveBounds (quantizer E) dp
                   \<lparr>rect_x = nv_x (target e), rect_y = nv_y (target e),
                    rect_width = nv_width (target e), rect_height = nv_height (target e)\<rparr>
                   (globalToLocal E (stageX e) (stageY e)))])"
  by (simp add: onPressMoveNote_def Let_def)

lemma pressMoves_dragging:
  "dragPosition s = Some dp \<Longrightarrow>
   pressMoves E s es =
     Inr (s, map (\<lambda>e. OnResizeNote (noteId (target e))
                (pressMoveBounds (quantizer E) dp
                   \<lparr>rect_x = nv_x (target e), rect_y = nv_y (target e),
                    rect_width = nv_width (target e), rect_height = nv_height (target e)\<rparr>
                   (globalToLocal E (stageX e) (stageY e)))) es)"
  by (induction es) (simp_all add: onPressMoveNote_dragging)

text \<open>The hover feedback writes the cursor only.\<close>

lemma pencil_onMouseMove_dragPosition:
  "\<exists>s'. pencil_onMouseMove E s e = Inr (s', []) \<and> dragPosition s' = dragPosition s"
  by (simp add: pencil_onMouseMove_def Let_def setCursor_def
           split: option.split display_object.split DRAG_POSITION.split)

text \<open>
  C8.  A pencil-mode pointer-down whose target is the background container calls
  \<^verbatim>\<open>onCreateNote\<close> exactly once, with \<open>x = floorX\<close> and \<open>y = floorY\<close> of the
  container-local pointer and \<open>width = unitX\<close>.  On the grid \<open>unitX = 10\<close>,
  \<open>unitY = 12\<close> a pointer-down at local \<open>(23, 5)\<close> creates
  \<^verbatim>\<open>{x: 20, y: 0, width: 10}\<close>.
\<close>

theorem pencil_onMouseDown_creates_note:
  "(target e = Container \<longrightarrow>
      pencil_onMouseDown E s e =
        Inr (s, [OnCreateNote
                   \<lparr>nn_x = floorX (quantizer E) (pt_x (globalToLocal E (stageX e) (stageY e))),
                    nn_y = floorY (quantizer E) (pt_y (globalToLocal E (stageX e) (stageY e))),
                    nn_width = unitX (quantizer E)\<rparr>]))
   \<and> pencil_onMouseDown (exampleEnv ns sel) s (pointerAt 23 5 Container) =
        Inr (s, [OnCreateNote \<lparr>nn_x = 20, nn_y = 0, nn_width = 10\<rparr>])"
  by (simp add: pencil_onMouseDown_def Let_def exampleEnv_def pointerAt_def gridQuantizer_def)

theorem pencil_onMouseDown_creates_note_witness:
  "target (pointerAt 23 5 Container) = Container \<and>
   pencil_onMouseDown (exampleEnv [] None) (PencilMouseHandler ''default'') (pointerAt 23 5 Container) =
     Inr (PencilMouseHandler ''default'', [OnCreateNote \<lparr>nn_x = 20, nn_y = 0, nn_width = 10\<rparr>])"
proof -
  have h: "target (pointerAt 23 5 Container) = Container"
    by (simp add: pointerAt_def)
  have "target (pointerAt 23 5 Container) = Container \<longrightarrow>
      pencil_onMouseDown (exampleEnv [] None) (PencilMouseHandler ''default'') (pointerAt 23 5 Container) =
        Inr (PencilMouseHandler ''default'', [OnCreateNote
                   \<lparr>nn_x = floorX (quantizer (exampleEnv [] None))
                       (pt_x (globalToLocal (exampleEnv [] None) (stageX (pointerAt 23 5 Container)) (stageY (pointerAt 23 5 Container)))),
                    nn_y = floorY (quantizer (exampleEnv [] None))
                       (pt_y (globalToLocal (exampleEnv [] None) (stageX (pointerAt 23 5 Container)) (stageY (pointerAt 23 5 Container)))),
                    nn_width = unitX (quantizer (exampleEnv [] None))\<rparr>])"
    using pencil_onMouseDown_creates_note
            [where e = "pointerAt 23 5 Container" and E = "exampleEnv [] None"
               and s = "PencilMouseHandler ''default''"]
    by (rule conjunct1)
  with h show ?thesis
    by (simp add: example_quantizer_values) (simp add: pointerAt_def example_quantizer_values)
qed

text \<open>
  C3.  During a drag classified LeftEdge every pointer-move emits a resize whose \<open>x\<close> is
  the round-quantized pointer X and whose right edge \<open>x + width\<close> is the note's right
  edge; during a drag classified RightEdge every pointer-move emits a resize that leaves
  \<open>x\<close> unchanged and sets \<open>width\<close> to the quantized pointer X minus \<open>x\<close>.  Both leave
  \<open>y\<close> and \<open>height\<close> as they are.
\<close>

theorem resize_keeps_opposite_edge:
  "(dragPosition sL = Some dpL \<and> dp_type dpL = LEFT_EDGE \<longrightarrow>
      (\<exists>b. onPressMoveNote E sL e = Inr (sL, [OnResizeNote (noteId (target e)) b])
         \<and> rect_x b = roundX (quantizer E) (pt_x (globalToLocal E (stageX e) (stageY e)))
         \<and> rect_x b + rect_width b = nv_x (target e) + nv_width (target e)
         \<and> rect_y b = nv_y (target e) \<and> rect_height b = nv_height (target e)))
   \<and> (dragPosition sR = Some dpR \<and> dp_type dpR = RIGHT_EDGE \<longrightarrow>
      (\<exists>b. onPressMoveNote E sR e = Inr (sR, [OnResizeNote (noteId (target e)) b])
         \<and> rect_x b = nv_x (target e)
         \<and> rect_width b =
             roundX (quantizer E) (pt_x (globalToLocal E (stageX e) (stageY e))) - nv_x (target e)
         \<and> rect_y b = nv_y (target e) \<and> rect_height b = nv_height (target e)))"
  by (simp add: onPressMoveNote_dragging pressMoveBounds_def Let_def)

text \<open>
  The note \<^verbatim>\<open>{x: 100, y: 0, width: 40}\<close> with the pointer at local \<open>x = 130\<close>: a
  LeftEdge drag emits \<open>x = 130\<close> with the right edge still at 140, a RightEdge drag
  emits \<open>x = 100\<close>, \<open>width = 30\<close>.
\<close>

theorem resize_keeps_opposite_edge_witness:
  "(\<exists>b. onPressMoveNote (exampleEnv [] None) (dragging 2 0 LEFT_EDGE) (notePointer 130 0 exampleNoteView)
           = Inr (dragging 2 0 LEFT_EDGE, [OnResizeNote 7 b])
       \<and> rect_x b = 130 \<and> rect_x b + rect_width b = 140 \<and> rect_y b = 0 \<and> rect_height b = 12)
   \<and> (\<exists>b. onPressMoveNote (exampleEnv [] None) (dragging 38 0 RIGHT_EDGE) (notePointer 130 0 exampleNoteView)
           = Inr (dragging 38 0 RIGHT_EDGE, [OnResizeNote 7 b])
       \<and> rect_x b = 100 \<and> rect_width b = 30 \<and> rect_y b = 0 \<and> rect_height b = 12)"
proof -
  have l: "dragPosition (dragging 2 0 LEFT_EDGE) = Some \<lparr>dp_x = 2, dp_y = 0, dp_type = LEFT_EDGE\<rparr>
           \<and> dp_type \<lparr>dp_x = 2, dp_y = 0, dp_type = LEFT_EDGE\<rparr> = LEFT_EDGE"
    by (simp add: dragging_def)
  have r: "dragPosition (dragging 38 0 RIGHT_EDGE) = Some \<lparr>dp_x = 38, dp_y = 0, dp_type = RIGHT_EDGE\<rparr>
           \<and> dp_type \<lparr>dp_x = 38, dp_y = 0, dp_type = RIGHT_EDGE\<rparr> = RIGHT_EDGE"
    by (simp add: dragging_def)
  from resize_keeps_opposite_edge
         [where E = "exampleEnv [] None" and e = "notePointer 130 0 exampleNoteView"
            and sL = "dragging 2 0 LEFT_EDGE"
            and dpL = "\<lparr>dp_x = 2, dp_y = 0, dp_type = LEFT_EDGE\<rparr>"
            and sR = "dragging 38 0 RIGHT_EDGE"
            and dpR = "\<lparr>dp_x = 38, dp_y = 0, dp_type = RIGHT_EDGE\<rparr>"]
    l r
  show ?thesis
    by (simp add: example_note_pointer example_quantizer_values)
qed

lemma example_round_values:
  "roundX (quantizer (exampleEnv ns sel)) 110 = 110"
  "roundY (quantizer (exampleEnv ns sel)) 30 = 36"
  by (simp_all add: exampleEnv_def gridQuantizer_def round_def)

text \<open>
  C10.  During a drag classified Center every pointer-move emits an
  \<^verbatim>\<open>onResizeNote\<close> call whose bounds keep the note's width and height; only
  \<open>x\<close> and \<open>y\<close> are recomputed, from the pointer and the offset stored at
  pointer-down.  No handler of the pencil tool ever emits \<^verbatim>\<open>onMoveNotes\<close>.
\<close>

theorem center_drag_keeps_size:
  "(dragPosition s = Some dp \<and> dp_type dp = CENTER \<longrightarrow>
      (\<exists>b. onPressMoveNote E s e = Inr (s, [OnResizeNote (noteId (target e)) b])
         \<and> rect_width b = nv_width (target e)
         \<and> rect_height b = nv_height (target e)
         \<and> rect_x b = roundX (quantizer E) (pt_x (globalToLocal E (stageX e) (stageY e)) - dp_x dp)
         \<and> rect_y b = roundY (quantizer E) (pt_y (globalToLocal E (stageX e) (stageY e)) - dp_y dp)))
   \<and> OnMoveNotes ns d \<notin> set (emitted (onPressMoveNote E s' e))
   \<and> OnMoveNotes ns d \<notin> set (emitted (onMouseDownNote s' e))
   \<and> OnMoveNotes ns d \<notin> set (emitted (pencil_onMouseDown E s' e1))
   \<and> OnMoveNotes ns d \<notin> set (emitted (pencil_onMouseMove E s' e2))"
proof -
  have "OnMoveNotes ns d \<notin> set (emitted (pencil_onMouseMove E s' e2))"
    using pencil_onMouseMove_dragPosition [of E s' e2] by (auto simp: emitted_def)
  then show ?thesis
    by (simp add: onPressMoveNote_dragging pressMoveBounds_def Let_def emitted_def
          onPressMoveNote_def onMouseDownNote_def pencil_onMouseDown_def split: option.split)
qed

text \<open>
  The note \<^verbatim>\<open>{x: 100, y: 0, width: 40, height: 12}\<close> grabbed at its local
  \<open>(20, 6)\<close>, with the pointer at \<open>(130, 36)\<close>: the emitted bounds are
  \<^verbatim>\<open>{x: 110, y: 36, width: 40, height: 12}\<close>.
\<close>

theorem center_drag_keeps_size_witness:
  "\<exists>b. onPressMoveNote (exampleEnv [] None) (dragging 20 6 CENTER) (notePointer 130 36 exampleNoteView)
           = Inr (dragging 20 6 CENTER, [OnResizeNote 7 b])
       \<and> rect_width b = 40 \<and> rect_height b = 12 \<and> rect_x b = 110 \<and> rect_y b = 36"
proof -
  have c: "dragPosition (dragging 20 6 CENTER) = Some \<lparr>dp_x = 20, dp_y = 6, dp_type = CENTER\<rparr>
           \<and> dp_type \<lparr>dp_x = 20, dp_y = 6, dp_type = CENTER\<rparr> = CENTER"
    by (simp add: dragging_def)
  from center_drag_keeps_size
         [where E = "exampleEnv [] None" and e = "notePointer 130 36 exampleNoteView"
            and s = "dragging 20 6 CENTER"
            and dp = "\<lparr>dp_x = 20, dp_y = 6, dp_type = CENTER\<rparr>", THEN conjunct1] c
  show ?thesis
    by (simp add: example_note_pointer example_quantizer_values example_round_values)
qed

text \<open>
  A whole drag: the pointer-down stores the classification of its own note-local offset,
  and every pointer-move of the drag, whatever it carries, is answered from that stored
  drag position and leaves it in place.
\<close>

lemma noteDrag_run:
  "noteDrag E s0 e0 es =
     Inr (s0\<lparr>dragPosition := Some
               \<lparr>dp_x = localX e0, dp_y = localY e0,
                dp_type = getDragPositionType (localX e0) (nv_width (target e0))\<rparr>\<rparr>,
          map (\<lambda>e. OnResizeNote (noteId (target e))
                 (pressMoveBounds (quantizer E)
                    \<lparr>dp_x = localX e0, dp_y = localY e0,
                     dp_type = getDragPositionType (localX e0) (nv_width (target e0))\<rparr>
                    \<lparr>rect_x = nv_x (target e), rect_y = nv_y (target e),
                     rect_width = nv_width (target e), rect_height = nv_height (target e)\<rparr>
                    (globalToLocal E (stageX e) (stageY e)))) es)"
  by (simp add: noteDrag_def onMouseDownNote_def pressMoves_dragging)

text \<open>
  C1.  In a pencil-mode drag on a note the region type is computed once, at
  pointer-down, from the event's note-local X and the note's width.  After any sequence
  of pointer-moves the stored drag position is still that one, and every pointer-move of
  the drag emits the bounds that belong to that stored type, whatever the live pointer
  would classify as: for LeftEdge \<open>x = qx\<close> and \<open>width = width + x - qx\<close>, for
  RightEdge \<open>width = qx - x\<close>, for Center \<open>x\<close> and \<open>y\<close> rounded from the pointer
  minus the offset stored at pointer-down, where \<open>qx\<close> is the round-quantized pointer X.
  The hover handler, which does classify the live pointer for the cursor, leaves the
  stored drag position alone.
  Regression example: on the note \<^verbatim>\<open>{x: 100, y: 0, width: 40}\<close> a drag that
  starts at local \<open>x = 2\<close> (LeftEdge) and moves to local \<open>x = 30\<close>, where the
  classifier would say Center, still resizes from the left edge:
  \<^verbatim>\<open>{x: 130, y: 0, width: 10}\<close>.
\<close>

theorem drag_region_type_captured_once:
  "noteDrag E s0 e0 es =
     Inr (s0\<lparr>dragPosition := Some
               \<lparr>dp_x = localX e0, dp_y = localY e0,
                dp_type = getDragPositionType (localX e0) (nv_width (target e0))\<rparr>\<rparr>,
          map (\<lambda>e. OnResizeNote (noteId (target e))
                 (case getDragPositionType (localX e0) (nv_width (target e0)) of
                    LEFT_EDGE \<Rightarrow>
                      \<lparr>rect_x = roundX (quantizer E) (pt_x (globalToLocal E (stageX e) (stageY e))),
                       rect_y = nv_y (target e),
                       rect_width = nv_width (target e) + nv_x (target e)
                         - roundX (quantizer E) (pt_x (globalToLocal E (stageX e) (stageY e))),
                       rect_height = nv_height (target e)\<rparr>
                  | RIGHT_EDGE \<Rightarrow>
                      \<lparr>rect_x = nv_x (target e),
                       rect_y = nv_y (target e),
                       rect_width = roundX (quantizer E) (pt_x (globalToLocal E (stageX e) (stageY e)))
                         - nv_x (target e),
                       rect_height = nv_height (target e)\<rparr>
                  | CENTER \<Rightarrow>
                      \<lparr>rect_x = roundX (quantizer E)
                         (pt_x (globalToLocal E (stageX e) (stageY e)) - localX e0),
                       rect_y = roundY (quantizer E)
                         (pt_y (globalToLocal E (stageX e) (stageY e)) - localY e0),
                       rect_width = nv_width (target e),
                       rect_height = nv_height (target e)\<rparr>)) es)
   \<and> (\<exists>s'. pencil_onMouseMove E s e2 = Inr (s', []) \<and> dragPosition s' = dragPosition s)
   \<and> getDragPositionType (localX (notePointer 102 0 exampleNoteView)) 40 = LEFT_EDGE
   \<and> getDragPositionType (localX (notePointer 130 0 exampleNoteView)) 40 = CENTER
   \<and> emitted (noteDrag (exampleEnv ns sel) s1 (notePointer 102 0 exampleNoteView)
                [notePointer 130 0 exampleNoteView]) =
       [OnResizeNote 7 \<lparr>rect_x = 130, rect_y = 0, rect_width = 10, rect_height = 12\<rparr>]"
proof -
  have drag: "noteDrag E s0 e0 es =
     Inr (s0\<lparr>dragPosition := Some
               \<lparr>dp_x = localX e0, dp_y = localY e0,
                dp_type = getDragPositionType (localX e0) (nv_width (target e0))\<rparr>\<rparr>,
          map (\<lambda>e. OnResizeNote (noteId (target e))
                 (case getDragPositionType (localX e0) (nv_width (target e0)) of
                    LEFT_EDGE \<Rightarrow>
                      \<lparr>rect_x = roundX (quantizer E) (pt_x (globalToLocal E (stageX e) (stageY e))),
                       rect_y = nv_y (target e),
                       rect_width = nv_width (target e) + nv_x (target e)
                         - roundX (quantizer E) (pt_x (globalToLocal E (stageX e) (stageY e))),
                       rect_height = nv_height (target e)\<rparr>
                  | RIGHT_EDGE \<Rightarrow>
                      \<lparr>rect_x = nv_x (target e),
                       rect_y = nv_y (target e),
                       rect_width = roundX (quantizer E) (pt_x (globalToLocal E (stageX e) (stageY e)))
                         - nv_x (target e),
                       rect_height = nv_height (target e)\<rparr>
                  | CENTER \<Rightarrow>
                      \<lparr>rect_x = roundX (quantizer E)
                         (pt_x (globalToLocal E (stageX e) (stageY e)) - localX e0),
                       rect_y = roundY (quantizer E)
                         (pt_y (globalToLocal E (stageX e) (stageY e)) - localY e0),
                       rect_width = nv_width (target e),
                       rect_height = nv_height (target e)\<rparr>)) es)"
    by (cases "getDragPositionType (localX e0) (nv_width (target e0))")
       (simp_all add: noteDrag_run pressMoveBounds_def Let_def)
  have left: "getDragPositionType (localX (notePointer 102 0 exampleNoteView)) 40 = LEFT_EDGE"
    by (simp add: example_note_pointer getDragPositionType_def)
  have centre: "getDragPositionType (localX (notePointer 130 0 exampleNoteView)) 40 = CENTER"
    by (simp add: example_note_pointer getDragPositionType_def)
  have ex: "emitted (noteDrag (exampleEnv ns sel) s1 (notePointer 102 0 exampleNoteView)
                [notePointer 130 0 exampleNoteView]) =
       [OnResizeNote 7 \<lparr>rect_x = 130, rect_y = 0, rect_width = 10, rect_height = 12\<rparr>]"
    using left
    by (simp add: noteDrag_run emitted_def example_note_pointer example_quantizer_values
          pressMoveBounds_def Let_def)
  from drag pencil_onMouseMove_dragPosition [of E s e2] left centre ex
  show ?thesis by (intro conjI)
qed

section \<open>SelectionMouseHandler: properties\<close>

lemmas example_defs =
  exampleEnv_def gridQuantizer_def round_def pointerAt_def Rect_containsPoint_def
  Rect_fromPoints_def exampleNote_def emptySelectionView_def fixedSelection_def
  heldSelection_def SelectionMouseHandler_def

lemmas selection_defs =
  selection_onMouseDown_def selection_onMouseMove_def selection_onMouseUp_def
  selectionRect_def set_selectionRect_def filterNotes_def or_else_def Let_def

lemma example_selection_values:
  "selectionRect fixedSelection = \<lparr>rect_x = 20, rect_y = 12, rect_width = 80, rect_height = 48\<rparr>"
  "selectionView fixedSelection =
     \<lparr>sv_x = 20, sv_y = 12, sv_width = 80, sv_height = 48, fixed = True, visible = True\<rparr>"
  "selectedNotes fixedSelection = [exampleNote]"
  "containsPoint (exampleEnv ns sel) = Rect_containsPoint"
  "stageX (pointerAt sx sy tg) = sx"
  "stageY (pointerAt sx sy tg) = sy"
  by (simp_all add: fixedSelection_def selectionRect_def exampleEnv_def pointerAt_def)

text \<open>The pointer-down at \<open>(50, 24)\<close> takes \<open>fixedSelection\<close> to \<open>heldSelection\<close>.\<close>

lemma fixedSelection_pointer_down:
  "selection_onMouseDown (exampleEnv ns sel) fixedSelection (pointerAt 50 24 Container) =
     Inr (heldSelection, [])"
  by (simp add: example_defs selection_defs)

text \<open>While the pointer is not held, a pointer-move in selection mode does nothing.\<close>

lemma selection_onMouseMove_idle:
  "\<not> isMouseDown s \<Longrightarrow> selection_onMouseMove E s e = Inr (s, [])"
  by (simp add: selection_onMouseMove_def)

text \<open>
  No handler of the class writes \<^verbatim>\<open>isMouseMoved\<close>: whatever events arrive, the
  flag keeps the value it had.
\<close>

lemma selection_dispatch_isMouseMoved:
  "selection_dispatch E s ev = Inr (s', out) \<Longrightarrow> isMouseMoved s' = isMouseMoved s"
  by (cases ev)
     (auto simp: selection_onMouseDown_def selection_onMouseMove_def selection_onMouseUp_def
         set_selectionRect_def Let_def
         split: if_splits option.splits sum.splits)

lemma selection_run_isMouseMoved:
  "selection_run E s evs = Inr (s', out) \<Longrightarrow> isMouseMoved s' = isMouseMoved s"
proof (induction evs arbitrary: s out)
  case Nil
  then show ?case by simp
next
  case (Cons ev evs)
  from Cons.prems obtain s1 out1 out2 where
    step: "selection_dispatch E s ev = Inr (s1, out1)" and
    rest: "selection_run E s1 evs = Inr (s', out2)"
    by (auto split: sum.splits prod.splits)
  from Cons.IH [OF rest] selection_dispatch_isMouseMoved [OF step]
  show ?case by simp
qed

text \<open>The two branches of \<^verbatim>\<open>onMouseUp\<close> that call the listener.\<close>

lemma selection_onMouseUp_fixed:
  "fixed (selectionView s) \<Longrightarrow> \<not> isMouseMoved s \<Longrightarrow>
   selection_onMouseUp E s e = Inr (s\<lparr>isMouseDown := False\<rparr>, [OnClickNotes (selectedNotes s) e])"
  by (simp add: selection_onMouseUp_def)

lemma selection_onMouseUp_marquee:
  "\<not> fixed (selectionView s) \<Longrightarrow> filterNotes E = Inr ns \<Longrightarrow>
   selection_onMouseUp E s e =
     Inr (s\<lparr>selectionView := (selectionView s)\<lparr>fixed := True\<rparr>,
           selectedNotes := ns, isMouseDown := False\<rparr>, [OnSelectNotes ns])"
  by (simp add: selection_onMouseUp_def Let_def)

text \<open>
  A handler fresh from the constructor is in a gesture state, every handler keeps it, and
  in a gesture state no handler throws a TypeError: the undefined reads of
  \<^verbatim>\<open>onMouseMove\<close> cannot happen in a handler that only receives events.
\<close>

lemma gestureState_fresh: "gestureState (SelectionMouseHandler sv)"
  by (simp add: gestureState_def SelectionMouseHandler_def)

lemma selection_dispatch_gestureState:
  "gestureState s \<Longrightarrow> selection_dispatch E s ev = Inr (s', out) \<Longrightarrow> gestureState s'"
  by (cases ev)
     (auto simp: gestureState_def selection_onMouseDown_def selection_onMouseMove_def
         selection_onMouseUp_def set_selectionRect_def Let_def
         split: if_splits option.splits sum.splits)

lemma selection_dispatch_no_TypeError:
  "gestureState s \<Longrightarrow> selection_dispatch E s ev \<noteq> Inl (TypeError, s')"
  by (cases ev)
     (auto simp: gestureState_def selection_onMouseDown_def selection_onMouseMove_def
         selection_onMouseUp_def filterNotes_def Let_def
         split: if_splits option.splits sum.splits list.splits)

lemma selection_run_no_TypeError:
  "gestureState s \<Longrightarrow> selection_run E s evs \<noteq> Inl (TypeError, s')"
proof (induction evs arbitrary: s)
  case Nil
  then show ?case by simp
next
  case (Cons ev evs)
  show ?case
  proof (cases "selection_dispatch E s ev")
    case (Inl err)
    with selection_dispatch_no_TypeError [OF Cons.prems, of E ev s'] show ?thesis
      by auto
  next
    case (Inr r)
    obtain s1 out1 where r: "r = (s1, out1)" by (cases r)
    from Inr r Cons.prems have "gestureState s1"
      by (auto dest: selection_dispatch_gestureState)
    from Cons.IH [OF this] Inr r show ?thesis
      by (auto split: sum.splits)
  qed
qed

text \<open>
  C4.  A pointer-move while the pointer is held and the selection rectangle is fixed
  calls \<^verbatim>\<open>onMoveNotes\<close> with the selected notes and the delta from the rectangle's
  origin to the quantized target origin (the round-quantized difference of the pointer
  and the drag offset recorded at pointer-down); afterwards the rectangle's origin is its
  old origin plus that delta and its width and height are unchanged.
\<close>

theorem fixed_selection_drag_move:
  "isMouseDown s \<Longrightarrow> fixed (selectionView s) \<Longrightarrow> dragOffset s = Some off \<Longrightarrow>
   (let loc = globalToLocal E (stageX e) (stageY e);
        qx = roundX (quantizer E) (pt_x loc - pt_x off);
        qy = roundY (quantizer E) (pt_y loc - pt_y off);
        delta = \<lparr>pt_x = qx - rect_x (selectionRect s), pt_y = qy - rect_y (selectionRect s)\<rparr>
    in \<exists>s'. selection_onMouseMove E s e = Inr (s', [OnMoveNotes (selectedNotes s) delta])
         \<and> rect_x (selectionRect s') = rect_x (selectionRect s) + pt_x delta
         \<and> rect_y (selectionRect s') = rect_y (selectionRect s) + pt_y delta
         \<and> rect_width (selectionRect s') = rect_width (selectionRect s)
         \<and> rect_height (selectionRect s') = rect_height (selectionRect s)
         \<and> selectedNotes s' = selectedNotes s
         \<and> fixed (selectionView s'))"
  by (simp add: selection_onMouseMove_def selectionRect_def set_selectionRect_def Let_def)

text \<open>
  The rectangle \<open>(20, 12, 80, 48)\<close> grabbed at \<open>(50, 24)\<close> and dragged to
  \<open>(70, 24)\<close>: the notes move by \<open>(20, 0)\<close> and the rectangle is at
  \<open>(40, 12, 80, 48)\<close>.
\<close>

theorem fixed_selection_drag_move_witness:
  "isMouseDown heldSelection \<and> fixed (selectionView heldSelection)
   \<and> dragOffset heldSelection = Some \<lparr>pt_x = 30, pt_y = 12\<rparr>
   \<and> (\<exists>s'. selection_onMouseMove (exampleEnv [] None) heldSelection (pointerAt 70 24 Container) =
             Inr (s', [OnMoveNotes [exampleNote] \<lparr>pt_x = 20, pt_y = 0\<rparr>])
          \<and> selectionRect s' = \<lparr>rect_x = 40, rect_y = 12, rect_width = 80, rect_height = 48\<rparr>)"
proof -
  have h: "isMouseDown heldSelection" "fixed (selectionView heldSelection)"
    "dragOffset heldSelection = Some \<lparr>pt_x = 30, pt_y = 12\<rparr>"
    by (simp_all add: heldSelection_def fixedSelection_def)
  have v: "selectedNotes heldSelection = [exampleNote]"
    "selectionRect heldSelection = \<lparr>rect_x = 20, rect_y = 12, rect_width = 80, rect_height = 48\<rparr>"
    "roundX (quantizer (exampleEnv [] None)) 40 = 40"
    "roundY (quantizer (exampleEnv [] None)) 12 = 12"
    "stageX (pointerAt 70 24 Container) = 70" "stageY (pointerAt 70 24 Container) = 24"
    by (simp_all add: heldSelection_def fixedSelection_def selectionRect_def exampleEnv_def
          gridQuantizer_def round_def pointerAt_def)
  from fixed_selection_drag_move
         [OF h, where E = "exampleEnv [] None" and e = "pointerAt 70 24 Container"]
  obtain s' where
    "selection_onMouseMove (exampleEnv [] None) heldSelection (pointerAt 70 24 Container) =
       Inr (s', [OnMoveNotes [exampleNote] \<lparr>pt_x = 20, pt_y = 0\<rparr>])"
    "rect_x (selectionRect s') = 40" "rect_y (selectionRect s') = 12"
    "rect_width (selectionRect s') = 80" "rect_height (selectionRect s') = 48"
    by (auto simp: Let_def v example_quantizer_values)
  then have "selection_onMouseMove (exampleEnv [] None) heldSelection (pointerAt 70 24 Container) =
             Inr (s', [OnMoveNotes [exampleNote] \<lparr>pt_x = 20, pt_y = 0\<rparr>])
          \<and> selectionRect s' = \<lparr>rect_x = 40, rect_y = 12, rect_width = 80, rect_height = 48\<rparr>"
    by (cases "selectionRect s'") simp
  with h show ?thesis by blast
qed

text \<open>
  C9.  A selection-mode pointer-down at a point outside the current selection rectangle,
  fixed or not, makes the rectangle unfixed and invisible, sets its bounds to the
  zero-size rectangle at the down point and calls \<^verbatim>\<open>onSelectNotes\<close> with the empty
  list; a pointer-down at a point inside the rectangle calls nothing and leaves the
  selection view and the selected notes as they are.
\<close>

theorem pointer_down_outside_resets_selection:
  "(\<not> containsPoint E (selectionRect s) (globalToLocal E (stageX e) (stageY e)) \<longrightarrow>
      (\<exists>s'. selection_onMouseDown E s e = Inr (s', [OnSelectNotes []])
         \<and> \<not> fixed (selectionView s') \<and> \<not> visible (selectionView s')
         \<and> selectionRect s' =
             \<lparr>rect_x = pt_x (globalToLocal E (stageX e) (stageY e)),
              rect_y = pt_y (globalToLocal E (stageX e) (stageY e)),
              rect_width = 0, rect_height = 0\<rparr>))
   \<and> (containsPoint E (selectionRect t) (globalToLocal E (stageX e2) (stageY e2)) \<longrightarrow>
      (\<exists>t'. selection_onMouseDown E t e2 = Inr (t', [])
         \<and> selectionView t' = selectionView t \<and> selectedNotes t' = selectedNotes t))"
  by (simp add: selection_onMouseDown_def selectionRect_def set_selectionRect_def Let_def)

text \<open>
  On the fixed rectangle \<open>(20, 12, 80, 48)\<close>: a pointer-down at \<open>(200, 24)\<close> resets
  the selection, one at \<open>(50, 24)\<close> does not.
\<close>

theorem pointer_down_outside_resets_selection_witness:
  "\<not> Rect_containsPoint \<lparr>rect_x = 20, rect_y = 12, rect_width = 80, rect_height = 48\<rparr>
        \<lparr>pt_x = 200, pt_y = 24\<rparr>
   \<and> (\<exists>s'. selection_onMouseDown (exampleEnv [] None) fixedSelection (pointerAt 200 24 Container) =
             Inr (s', [OnSelectNotes []])
         \<and> \<not> fixed (selectionView s') \<and> \<not> visible (selectionView s')
         \<and> selectionRect s' = \<lparr>rect_x = 200, rect_y = 24, rect_width = 0, rect_height = 0\<rparr>)
   \<and> Rect_containsPoint \<lparr>rect_x = 20, rect_y = 12, rect_width = 80, rect_height = 48\<rparr>
        \<lparr>pt_x = 50, pt_y = 24\<rparr>
   \<and> (\<exists>t'. selection_onMouseDown (exampleEnv [] None) fixedSelection (pointerAt 50 24 Container) =
             Inr (t', [])
         \<and> selectionView t' =
             \<lparr>sv_x = 20, sv_y = 12, sv_width = 80, sv_height = 48, fixed = True, visible = True\<rparr>
         \<and> selectedNotes t' = [exampleNote])"
proof -
  have out: "\<not> Rect_containsPoint \<lparr>rect_x = 20, rect_y = 12, rect_width = 80, rect_height = 48\<rparr>
        \<lparr>pt_x = 200, pt_y = 24\<rparr>"
    by (simp add: Rect_containsPoint_def)
  have ins: "Rect_containsPoint \<lparr>rect_x = 20, rect_y = 12, rect_width = 80, rect_height = 48\<rparr>
        \<lparr>pt_x = 50, pt_y = 24\<rparr>"
    by (simp add: Rect_containsPoint_def)
  from pointer_down_outside_resets_selection
         [where E = "exampleEnv [] None" and s = fixedSelection and t = fixedSelection
            and e = "pointerAt 200 24 Container" and ?e2.0 = "pointerAt 50 24 Container"]
    out ins
  show ?thesis
    by (simp add: example_selection_values example_quantizer_values)
qed

section \<open>Where the handlers depart from the specification\<close>

text \<open>
  C5.  The claim: the pointer-up of a marquee gesture calls \<^verbatim>\<open>onSelectNotes\<close>
  exactly once, with the notes whose point lies in the handler's selection rectangle.
  The code filters with \<^verbatim>\<open>new Rect(selection)\<close>, an identifier the handler never
  binds, instead of \<^verbatim>\<open>this.selectionRect\<close>.  A marquee from \<open>(20, 12)\<close> to
  \<open>(100, 60)\<close> over a note at \<open>(50, 24)\<close>: with no global \<^verbatim>\<open>selection\<close> the
  pointer-up throws a ReferenceError after fixing the rectangle, calls no listener and
  leaves \<^verbatim>\<open>isMouseDown\<close> set; with a global \<^verbatim>\<open>selection\<close> holding another
  rectangle the pointer-up reports an empty selection, though the note's point lies in
  the handler's rectangle \<open>(20, 12, 80, 48)\<close>.
\<close>

theorem marquee_pointer_up_reads_global_selection:
  "selection_run (exampleEnv [exampleNote] None) (SelectionMouseHandler emptySelectionView)
     [Down (pointerAt 20 12 Container), Move (pointerAt 100 60 Container),
      Up (pointerAt 100 60 Container)] =
     Inl (ReferenceError,
          \<lparr>selectionView =
             \<lparr>sv_x = 20, sv_y = 12, sv_width = 80, sv_height = 48, fixed = True, visible = True\<rparr>,
           selectedNotes = [], isMouseDown = True, isMouseMoved = False,
           start = Some \<lparr>pt_x = 20, pt_y = 12\<rparr>, dragOffset = Some \<lparr>pt_x = 0, pt_y = 0\<rparr>\<rparr>)
   \<and> selection_run
       (exampleEnv [exampleNote]
          (Some \<lparr>rect_x = 500, rect_y = 500, rect_width = 10, rect_height = 10\<rparr>))
       (SelectionMouseHandler emptySelectionView)
       [Down (pointerAt 20 12 Container), Move (pointerAt 100 60 Container),
        Up (pointerAt 100 60 Container)] =
     Inr (\<lparr>selectionView =
             \<lparr>sv_x = 20, sv_y = 12, sv_width = 80, sv_height = 48, fixed = True, visible = True\<rparr>,
           selectedNotes = [], isMouseDown = False, isMouseMoved = False,
           start = Some \<lparr>pt_x = 20, pt_y = 12\<rparr>, dragOffset = Some \<lparr>pt_x = 0, pt_y = 0\<rparr>\<rparr>,
          [OnSelectNotes [], OnSelectNotes []])
   \<and> Rect_containsPoint \<lparr>rect_x = 20, rect_y = 12, rect_width = 80, rect_height = 48\<rparr>
        \<lparr>pt_x = note_x exampleNote, pt_y = note_y exampleNote\<rparr>"
  by (simp add: example_defs selection_defs)

text \<open>
  C6.  The claim: a pointer-up inside a fixed selection calls \<^verbatim>\<open>onClickNotes\<close> when
  no pointer-move came since the pointer-down, and does not call it when one did.  The
  first half holds (third conjunct).  The second does not: \<^verbatim>\<open>onMouseUp\<close> tests
  \<^verbatim>\<open>this.isMouseMoved\<close>, which no handler ever sets, so after a drag of the fixed
  selection the pointer-up still calls \<^verbatim>\<open>onClickNotes\<close>, right after the
  \<^verbatim>\<open>onMoveNotes\<close> of the drag.  First a handler fresh from the constructor, with
  no notes; then the handler with a committed selection of one note.
\<close>

theorem click_reported_after_drag_move:
  "selection_run (exampleEnv [] None) (SelectionMouseHandler emptySelectionView)
     [Down (pointerAt 20 12 Container), Move (pointerAt 100 60 Container),
      Up (pointerAt 100 60 Container),
      Down (pointerAt 50 24 Container), Move (pointerAt 70 24 Container),
      Up (pointerAt 70 24 Container)] =
     Inr (\<lparr>selectionView =
             \<lparr>sv_x = 40, sv_y = 12, sv_width = 80, sv_height = 48, fixed = True, visible = True\<rparr>,
           selectedNotes = [], isMouseDown = False, isMouseMoved = False,
           start = Some \<lparr>pt_x = 50, pt_y = 24\<rparr>, dragOffset = Some \<lparr>pt_x = 30, pt_y = 12\<rparr>\<rparr>,
          [OnSelectNotes [], OnSelectNotes [],
           OnMoveNotes [] \<lparr>pt_x = 20, pt_y = 0\<rparr>,
           OnClickNotes [] (pointerAt 70 24 Container)])
   \<and> emitted (selection_run (exampleEnv [exampleNote] None) fixedSelection
        [Down (pointerAt 50 24 Container), Move (pointerAt 70 24 Container),
         Up (pointerAt 70 24 Container)]) =
       [OnMoveNotes [exampleNote] \<lparr>pt_x = 20, pt_y = 0\<rparr>,
        OnClickNotes [exampleNote] (pointerAt 70 24 Container)]
   \<and> emitted (selection_run (exampleEnv [exampleNote] None) fixedSelection
        [Down (pointerAt 50 24 Container), Up (pointerAt 50 24 Container)]) =
       [OnClickNotes [exampleNote] (pointerAt 50 24 Container)]"
  by (simp add: example_defs selection_defs emitted_def)

text \<open>
  C7.  The claim: a pointer-move or pointer-up with no pointer-down before it is a no-op
  in every handler.  \<^verbatim>\<open>SelectionMouseHandler.onMouseMove\<close> has the guard (last
  conjunct), \<^verbatim>\<open>onMouseUp\<close> has none: on a handler fresh from the constructor a
  pointer-up fixes the empty rectangle and calls \<^verbatim>\<open>onSelectNotes\<close> (or, with a note
  on the track and no global \<^verbatim>\<open>selection\<close>, throws a ReferenceError); on a committed
  selection a pointer-up alone calls \<^verbatim>\<open>onClickNotes\<close>; and
  \<^verbatim>\<open>PencilMouseHandler.onPressMoveNote\<close> on a handler with no drag position throws a
  TypeError.
\<close>

theorem pointer_up_without_down_acts:
  "selection_onMouseUp (exampleEnv [] None) (SelectionMouseHandler emptySelectionView)
     (pointerAt 5 5 Container) =
     Inr ((SelectionMouseHandler emptySelectionView)
            \<lparr>selectionView := emptySelectionView\<lparr>fixed := True\<rparr>\<rparr>, [OnSelectNotes []])
   \<and> selection_onMouseUp (exampleEnv [exampleNote] None) (SelectionMouseHandler emptySelectionView)
     (pointerAt 5 5 Container) =
     Inl (ReferenceError, (SelectionMouseHandler emptySelectionView)
            \<lparr>selectionView := emptySelectionView\<lparr>fixed := True\<rparr>\<rparr>)
   \<and> selection_onMouseUp E fixedSelection e = Inr (fixedSelection, [OnClickNotes [exampleNote] e])
   \<and> onPressMoveNote E (PencilMouseHandler c) e' = Inl (TypeError, PencilMouseHandler c)
   \<and> selection_onMouseMove E (SelectionMouseHandler sv) e'' = Inr (SelectionMouseHandler sv, [])"
  by (simp add: example_defs selection_defs onPressMoveNote_def PencilMouseHandler_def)

end
